theory Spec2Isabelle
  imports Main
begin

section \<open>JavaScript values and the JSON built-ins\<close>

text \<open>
  Content payloads are JavaScript values of type \<open>any\<close>. The program only tests them for
  truthiness and passes them through \<open>JSON.stringify\<close> and \<open>JSON.parse\<close>, so JSON values
  plus \<open>undefined\<close> are enough. Numbers are integers here (timestamps, pixel offsets).
\<close>

datatype jsval =
    JUndefined
  | JNull
  | JBool bool
  | JNum int
  | JStr string
  | JArr "jsval list"
  | JObj "(string \<times> jsval) list"

text \<open>JavaScript truthiness (\<open>if (v)\<close>, \<open>!v\<close>, \<open>a || b\<close>).\<close>

fun truthy :: "jsval \<Rightarrow> bool" where
  "truthy JUndefined = False"
| "truthy JNull = False"
| "truthy (JBool b) = b"
| "truthy (JNum n) = (n \<noteq> 0)"
| "truthy (JStr s) = (s \<noteq> [])"
| "truthy (JArr vs) = True"
| "truthy (JObj kvs) = True"

text \<open>
  \<open>JSON.parse\<close> and \<open>JSON.stringify\<close> are built-ins of the JavaScript runtime, not code of
  the repository: they are parameters of the model. \<open>JSON_parse J s = None\<close> means that
  \<open>JSON.parse(s)\<close> throws a SyntaxError; \<open>JSON_stringify J v = None\<close> means that
  \<open>JSON.stringify(v)\<close> returns \<open>undefined\<close>.
\<close>

record json_builtin =
  JSON_parse :: "string \<Rightarrow> jsval option"
  JSON_stringify :: "jsval \<Rightarrow> string option"

text \<open>\<open>JSON.parse(x)\<close> converts its argument to a string first: \<open>undefined\<close> reads
  as the text \<open>undefined\<close>.\<close>

definition parse_arg :: "json_builtin \<Rightarrow> string option \<Rightarrow> jsval option" where
  "parse_arg J a = JSON_parse J (case a of None \<Rightarrow> ''undefined'' | Some t \<Rightarrow> t)"

datatype js_error = SyntaxError | TypeError

section \<open>The content record\<close>

text \<open>
  The object \<open>{data, timestamp, origin}\<close> that travels between the room page and the
  editor component. Every writer in the repository stores a number under \<open>timestamp\<close>
  and a string under \<open>origin\<close>.
\<close>

record content_record =
  data :: jsval
  timestamp :: int
  origin :: string

text \<open>The record as the JavaScript object it is (keys in the order the page writes them).\<close>

definition as_object :: "content_record \<Rightarrow> jsval" where
  "as_object c = JObj [(''data'', data c), (''timestamp'', JNum (timestamp c)), (''origin'', JStr (origin c))]"

section \<open>Editor.svelte\<close>

text \<open>The \<open>initCode\<close> prop: \<open>undefined\<close> by default, \<open>null\<close> or a content record from the page.\<close>

datatype prop_value = PUndefined | PNull | PObject content_record

text \<open>
  The component state. \<open>iframe_window\<close> says whether \<open>iframe?.contentWindow\<close> is there;
  \<open>posted\<close> lists the \<open>data\<close> of every \<open>blocks.updateProject\<close> message posted to the
  iframe. \<open>timers\<close> is the browser's table of pending timeouts created by this component
  (identifier, due time) and \<open>next_timer\<close> the next identifier \<open>setTimeout\<close> returns.
\<close>

record editor =
  initCode :: prop_value
  editorReady :: bool
  codeLoaded :: bool
  debugMessages :: "string list"
  showDebug :: bool
  localUserId :: string
  lastRoomState :: jsval
  debounceTimer :: "nat option"
  iframe_window :: bool
  posted :: "jsval list"
  timers :: "(nat \<times> int) list"
  next_timer :: nat

text \<open>\<open>debug\<close>: keeps the last 19 messages and appends the new one (the clock prefix of
  each line is left out).\<close>

definition debug :: "string \<Rightarrow> editor \<Rightarrow> editor" where
  "debug message s =
     s\<lparr>debugMessages := drop (length (debugMessages s) - 19) (debugMessages s) @ [message]\<rparr>"

text \<open>\<open>loadCode\<close>: returns at once unless the editor is ready and the iframe window exists;
  a failing serialisation round trip is caught and logged.\<close>

definition loadCode :: "json_builtin \<Rightarrow> jsval \<Rightarrow> editor \<Rightarrow> editor" where
  "loadCode J code s =
     (if \<not> editorReady s \<or> \<not> iframe_window s then s
      else
        let s1 = debug ''Loading code into iframe'' s in
        case parse_arg J (JSON_stringify J code) of
          None \<Rightarrow> debug ''Error loading code: SyntaxError'' s1
        | Some serializableCode \<Rightarrow>
            debug ''Code loaded successfully''
              (s1\<lparr>posted := posted s1 @ [serializableCode], codeLoaded := True\<rparr>))"

definition loadRoomState :: "json_builtin \<Rightarrow> editor \<Rightarrow> editor" where
  "loadRoomState J s =
     (if truthy (lastRoomState s) then
        loadCode J (lastRoomState s) (debug ''Manually loading room state'' s)
      else case initCode s of
          PObject c \<Rightarrow>
            loadCode J (if truthy (data c) then data c else as_object c)
              (debug ''No recent room state, loading initial code'' s)
        | _ \<Rightarrow> debug ''No code available to load'' s)"

text \<open>Messages from the iframe: \<open>data.type\<close>, \<open>data.data\<close> (the serialised payload, \<open>None\<close>
  when absent) and \<open>data.event\<close> with its \<open>element\<close> and \<open>recordUndo\<close> fields.\<close>

record event_meta =
  element :: string
  recordUndo :: bool

record editor_message =
  msg_type :: string
  msg_data :: "string option"
  msg_event :: "event_meta option"

definition truthy_string :: "string option \<Rightarrow> bool" where
  "truthy_string a = (case a of None \<Rightarrow> False | Some t \<Rightarrow> t \<noteq> [])"

text \<open>
  \<open>handleMessage\<close>. The \<open>onContentChange\<close> prop is a callback on the state \<open>'p\<close> of the
  parent; \<open>now\<close> is the reading of \<open>Date.now()\<close>. A JavaScript exception that leaves the
  handler is the result \<open>Inl\<close>; nothing has been changed when it is thrown.
\<close>

definition handleMessage ::
  "json_builtin \<Rightarrow> (content_record \<Rightarrow> 'p \<Rightarrow> 'p) \<Rightarrow> int \<Rightarrow> editor_message \<Rightarrow>
     editor \<times> 'p \<Rightarrow> js_error + editor \<times> 'p" where
  "handleMessage J onContentChange now m sp =
     (let s = fst sp; p = snd sp in
      if msg_type m = ''blocks.ready'' then
        (let s1 = (debug ''Editor is ready to receive code'' s)\<lparr>editorReady := True\<rparr> in
         if initCode s1 \<noteq> PUndefined \<and> \<not> codeLoaded s1 then
           Inr (loadCode J (case initCode s1 of PObject c \<Rightarrow> as_object c | _ \<Rightarrow> JNull) s1, p)
         else Inr (s1, p))
      else if msg_type m = ''blocks.updateProject'' then
        (if editorReady s \<and> truthy_string (msg_data m) then
           (case msg_event m of
              None \<Rightarrow> Inl TypeError
            | Some ev \<Rightarrow>
                if element ev = ''selected'' \<or> \<not> recordUndo ev then Inr (s, p)
                else
                  (case parse_arg J (msg_data m) of
                     None \<Rightarrow> Inl SyntaxError
                   | Some v \<Rightarrow>
                       Inr (s, onContentChange
                                 \<lparr>data = v, timestamp = now, origin = localUserId s\<rparr> p)))
         else Inr (s, p))
      else if msg_type m \<noteq> [] \<and> msg_type m \<noteq> ''ping'' then
        Inr (debug (''Received '' @ msg_type m @ '' message'') s, p)
      else Inr (s, p))"

text \<open>
  \<open>debounce\<close>: clears the timeout recorded in \<open>debounceTimer\<close>, if any, and creates a new
  one due \<open>delay\<close> after \<open>now\<close>. Its only caller passes the closure \<open>room_state_apply\<close>
  below, so the table keeps identifiers and due times only.
\<close>

definition clearTimeout :: "nat \<Rightarrow> editor \<Rightarrow> editor" where
  "clearTimeout i s = s\<lparr>timers := filter (\<lambda>p. fst p \<noteq> i) (timers s)\<rparr>"

definition debounce :: "int \<Rightarrow> int \<Rightarrow> editor \<Rightarrow> editor" where
  "debounce now delay s =
     (let s1 = (case debounceTimer s of None \<Rightarrow> s | Some i \<Rightarrow> clearTimeout i s) in
      s1\<lparr>timers := timers s1 @ [(next_timer s1, now + delay)],
         next_timer := Suc (next_timer s1),
         debounceTimer := Some (next_timer s1)\<rparr>)"

text \<open>The \<open>$effect\<close> that reacts to a change of \<open>initCode\<close>, run at time \<open>now\<close>.\<close>

definition effect :: "int \<Rightarrow> editor \<Rightarrow> editor" where
  "effect now s =
     (case initCode s of
        PObject c \<Rightarrow> if origin c = localUserId s then s else debounce now 10 s
      | _ \<Rightarrow> s)"

text \<open>The closure the effect hands to \<open>debounce\<close>. It reads \<open>initCode\<close> when it runs;
  \<open>initCode.data\<close> on \<open>null\<close> or \<open>undefined\<close> is a TypeError.\<close>

definition room_state_apply :: "json_builtin \<Rightarrow> editor \<Rightarrow> js_error + editor" where
  "room_state_apply J s =
     (case initCode s of
        PObject c \<Rightarrow>
          if JSON_stringify J (data c) \<noteq> JSON_stringify J (lastRoomState s) then
            Inr ((loadCode J (data c)
                    (debug ''Room state updated with debounce, storing and loading'' s))
                   \<lparr>lastRoomState := data c\<rparr>)
          else Inr s
      | _ \<Rightarrow> Inl TypeError)"

text \<open>The timeout callback of \<open>debounce\<close>: \<open>fn(); debounceTimer = undefined\<close>.\<close>

definition timer_callback :: "json_builtin \<Rightarrow> editor \<Rightarrow> js_error + editor" where
  "timer_callback J s =
     (case room_state_apply J s of
        Inl e \<Rightarrow> Inl e
      | Inr s1 \<Rightarrow> Inr (s1\<lparr>debounceTimer := None\<rparr>))"

text \<open>
  The browser fires timeout \<open>i\<close>: it leaves the table, then its callback runs. An exception
  in the callback is reported by the browser and the event loop goes on with the state
  reached so far.
\<close>

definition fire :: "json_builtin \<Rightarrow> nat \<Rightarrow> editor \<Rightarrow> editor" where
  "fire J i s =
     (let s1 = clearTimeout i s in
      case timer_callback J s1 of Inl e \<Rightarrow> s1 | Inr s2 \<Rightarrow> s2)"

text \<open>Time passes up to \<open>t\<close>: every pending timeout due by then fires, earliest first.\<close>

definition due_by :: "int \<Rightarrow> editor \<Rightarrow> nat list" where
  "due_by t s = map fst (sort_key snd (filter (\<lambda>p. snd p \<le> t) (timers s)))"

definition advance :: "json_builtin \<Rightarrow> int \<Rightarrow> editor \<Rightarrow> editor" where
  "advance J t s = foldl (\<lambda>s' i. fire J i s') s (due_by t s)"

section \<open>The room page\<close>

text \<open>
  The page with the editor (the second room page has the same pointer handlers and the
  same teardown, without the content part).
\<close>

record presence =
  px :: int
  py :: int
  color :: string

record mouse_event =
  clientX :: int
  clientY :: int
  bounds_left :: int
  bounds_top :: int

datatype sync_status = Idle | Sending | Receiving

text \<open>The shared map \<open>block-content\<close>: the three keys the program uses, each absent or
  present.\<close>

record block_map =
  content :: "jsval option"
  b_timestamp :: "int option"
  b_origin :: "string option"

text \<open>The calls the page makes on the shared maps and on the provider, in order.\<close>

datatype shared_call =
    PresenceSet string presence
  | PresenceDelete string
  | ContentSet jsval
  | TimestampSet int
  | OriginSet string
  | ProviderDisconnect

text \<open>
  The page state. \<open>mousePositions\<close>, \<open>blockContent\<close> and \<open>provider\<close> are \<open>None\<close> until
  \<open>initRoom\<close> has run; \<open>provider = Some b\<close> has \<open>b\<close> false once \<open>disconnect\<close> was called.
  \<open>editorContent_writes\<close> counts the assignments to the reactive variable
  \<open>editorContent\<close>; \<open>idle_timers\<close> are the due times of the pending 500 ms timeouts that
  reset \<open>syncStatus\<close>; \<open>calls\<close> is the log of calls on the shared-state client.
\<close>

record room =
  users :: "string \<rightharpoonup> presence"
  myId :: string
  connected :: bool
  editorContent :: "content_record option"
  editorContent_writes :: nat
  lastEditorUpdate :: int
  syncStatus :: sync_status
  room_debugMessages :: "string list"
  userId :: string
  userColor :: string
  mousePositions :: "(string \<rightharpoonup> presence) option"
  blockContent :: "block_map option"
  provider :: "bool option"
  idle_timers :: "int list"
  calls :: "shared_call list"

definition room_debug :: "string \<Rightarrow> room \<Rightarrow> room" where
  "room_debug message s =
     s\<lparr>room_debugMessages :=
         drop (length (room_debugMessages s) - 19) (room_debugMessages s) @ [message]\<rparr>"

text \<open>\<open>m.get(k)\<close> on a shared map: \<open>undefined\<close> when the key is absent.\<close>

definition map_get :: "jsval option \<Rightarrow> jsval" where
  "map_get a = (case a of None \<Rightarrow> JUndefined | Some v \<Rightarrow> v)"

text \<open>The observer of \<open>mouse-positions\<close>: the local view becomes a snapshot of the map.\<close>

definition observe_mouse :: "room \<Rightarrow> room" where
  "observe_mouse s = (case mousePositions s of None \<Rightarrow> s | Some m \<Rightarrow> s\<lparr>users := m\<rparr>)"

text \<open>The observer of \<open>block-content\<close>, run at time \<open>now\<close> (timestamps are taken to be in
  the range of \<open>Date\<close>, so that formatting them for the log does not fail).\<close>

definition observe_block :: "int \<Rightarrow> room \<Rightarrow> room" where
  "observe_block now s =
     (case blockContent s of
        None \<Rightarrow> s
      | Some b \<Rightarrow>
          if truthy (map_get (content b)) then
            (let ts = (case b_timestamp b of None \<Rightarrow> 0 | Some t \<Rightarrow> t);
                 og = (case b_origin b of None \<Rightarrow> [] | Some ou \<Rightarrow> ou);
                 s1 = room_debug (''Received Y.js update from '' @ og) s;
                 s2 = room_debug ''Applying received update to editor'' (s1\<lparr>syncStatus := Receiving\<rparr>)
             in s2\<lparr>editorContent := Some \<lparr>data = map_get (content b), timestamp = ts, origin = og\<rparr>,
                   editorContent_writes := Suc (editorContent_writes s2),
                   lastEditorUpdate := ts,
                   idle_timers := idle_timers s2 @ [now + 500]\<rparr>)
          else s)"

text \<open>Local writes to the shared maps: the map changes, the call is logged and the
  map's observer runs (a shared map notifies its observers of local changes too; deleting
  an absent key changes nothing and notifies nobody).\<close>

definition mouse_set :: "string \<Rightarrow> presence \<Rightarrow> room \<Rightarrow> room" where
  "mouse_set k v s =
     (case mousePositions s of
        None \<Rightarrow> s
      | Some m \<Rightarrow>
          observe_mouse (s\<lparr>mousePositions := Some (m(k \<mapsto> v)), calls := calls s @ [PresenceSet k v]\<rparr>))"

definition mouse_delete :: "string \<Rightarrow> room \<Rightarrow> room" where
  "mouse_delete k s =
     (case mousePositions s of
        None \<Rightarrow> s
      | Some m \<Rightarrow>
          (let s1 = s\<lparr>mousePositions := Some (m(k := None)), calls := calls s @ [PresenceDelete k]\<rparr>
           in if m k = None then s1 else observe_mouse s1))"

definition block_update :: "(block_map \<Rightarrow> block_map) \<Rightarrow> shared_call \<Rightarrow> int \<Rightarrow> room \<Rightarrow> room" where
  "block_update f c now s =
     (case blockContent s of
        None \<Rightarrow> s
      | Some b \<Rightarrow> observe_block now (s\<lparr>blockContent := Some (f b), calls := calls s @ [c]\<rparr>))"

text \<open>\<open>handleEditorContentChange\<close>, the \<open>onContentChange\<close> the page gives the editor;
  \<open>now\<close> is the page's reading of \<open>Date.now()\<close>.\<close>

definition handleEditorContentChange :: "int \<Rightarrow> content_record \<Rightarrow> room \<Rightarrow> room" where
  "handleEditorContentChange now c s =
     (if blockContent s = None \<or> \<not> connected s then s
      else if \<not> truthy (data c) then room_debug ''Received empty update'' s
      else
        let ts = (if timestamp c \<noteq> 0 then timestamp c else now);
            og = (if origin c \<noteq> [] then origin c else []);
            s1 = (room_debug (''Received editor update from '' @ og @ '', sending to room immediately'') s)
                   \<lparr>syncStatus := Sending\<rparr>;
            s2 = block_update (\<lambda>b. b\<lparr>content := Some (data c)\<rparr>) (ContentSet (data c)) now s1;
            s3 = block_update (\<lambda>b. b\<lparr>b_timestamp := Some ts\<rparr>) (TimestampSet ts) now s2;
            s4 = block_update (\<lambda>b. b\<lparr>b_origin := Some og\<rparr>) (OriginSet og) now s3
        in s4\<lparr>lastEditorUpdate := ts, idle_timers := idle_timers s4 @ [now + 500]\<rparr>)"

definition handleMouseMove :: "mouse_event \<Rightarrow> room \<Rightarrow> room" where
  "handleMouseMove ev s =
     (if mousePositions s = None \<or> \<not> connected s then s
      else mouse_set (userId s)
             \<lparr>px = clientX ev - bounds_left ev, py = clientY ev - bounds_top ev, color = userColor s\<rparr> s)"

definition handleMouseLeave :: "room \<Rightarrow> room" where
  "handleMouseLeave s =
     (if mousePositions s \<noteq> None \<and> connected s then mouse_delete (userId s) s else s)"

text \<open>\<open>initRoom\<close>: a fresh document, its two maps, the provider.\<close>

definition initRoom :: "room \<Rightarrow> room" where
  "initRoom s =
     (room_debug ''Initializing room'' s)
       \<lparr>mousePositions := Some Map.empty,
        blockContent := Some \<lparr>content = None, b_timestamp = None, b_origin = None\<rparr>,
        provider := Some True,
        myId := userId s\<rparr>"


text \<open>\<open>cleanup\<close>, run when the page is destroyed.\<close>

definition cleanup :: "room \<Rightarrow> room" where
  "cleanup s =
     (let s1 = room_debug ''Cleaning up room'' s;
          s2 = (if mousePositions s1 \<noteq> None \<and> connected s1 then mouse_delete (userId s1) s1 else s1)
      in case provider s2 of
           None \<Rightarrow> s2
         | Some b \<Rightarrow>
             room_debug ''Disconnected from Y.js provider''
               (s2\<lparr>provider := Some False, calls := calls s2 @ [ProviderDisconnect]\<rparr>))"

text \<open>The page state when its script has run, before \<open>onMount\<close>.\<close>

definition room_start :: "string \<Rightarrow> string \<Rightarrow> room" where
  "room_start uid col =
     \<lparr>users = Map.empty, myId = [], connected = False, editorContent = None,
      editorContent_writes = 0, lastEditorUpdate = 0, syncStatus = Idle,
      room_debugMessages = [], userId = uid, userColor = col, mousePositions = None,
      blockContent = None, provider = None, idle_timers = [], calls = []\<rparr>"

text \<open>The pointer events of the tracking area, bound to the two handlers.\<close>

datatype pointer_event = MouseMove mouse_event | MouseLeave

fun pointer :: "room \<Rightarrow> pointer_event \<Rightarrow> room" where
  "pointer s (MouseMove ev) = handleMouseMove ev s"
| "pointer s MouseLeave = handleMouseLeave s"

section \<open>The editor over time\<close>

text \<open>The state of the component when its script has run: \<open>uid\<close> is the random
  \<open>localUserId\<close>, \<open>n0\<close> the first identifier the browser will give to a timeout.\<close>

definition editor_start :: "string \<Rightarrow> prop_value \<Rightarrow> bool \<Rightarrow> nat \<Rightarrow> editor" where
  "editor_start uid prop win n0 =
     \<lparr>initCode = prop, editorReady = False, codeLoaded = False, debugMessages = [],
      showDebug = True, localUserId = uid, lastRoomState = JNull, debounceTimer = None,
      iframe_window = win, posted = [], timers = [], next_timer = n0\<rparr>"

definition toggleDebug :: "editor \<Rightarrow> editor" where
  "toggleDebug s = s\<lparr>showDebug := \<not> showDebug s\<rparr>"

text \<open>
  What can happen to the component: the parent gives \<open>initCode\<close> a new value (the
  framework then runs the effect again), the iframe sends a message, a button is
  clicked. When the framework runs the effect is an input of the model.
\<close>

datatype editor_event =
    PropChange prop_value
  | Message editor_message
  | LoadRoomStateClick
  | ToggleDebugClick

text \<open>An event at time \<open>t\<close>: the timeouts due by \<open>t\<close> fire first, then the handler runs. An
  exception that leaves \<open>handleMessage\<close> is reported by the browser; the state stays.\<close>

definition step ::
  "json_builtin \<Rightarrow> (int \<Rightarrow> content_record \<Rightarrow> 'p \<Rightarrow> 'p) \<Rightarrow> editor \<times> 'p \<Rightarrow> int \<times> editor_event \<Rightarrow>
     editor \<times> 'p" where
  "step J onContentChange sp te =
     (let t = fst te; s = advance J t (fst sp); p = snd sp in
      case snd te of
        PropChange v \<Rightarrow> (effect t (s\<lparr>initCode := v\<rparr>), p)
      | Message m \<Rightarrow>
          (case handleMessage J (onContentChange t) t m (s, p) of
             Inl e \<Rightarrow> (s, p)
           | Inr sp' \<Rightarrow> sp')
      | LoadRoomStateClick \<Rightarrow> (loadRoomState J s, p)
      | ToggleDebugClick \<Rightarrow> (toggleDebug s, p))"

definition run ::
  "json_builtin \<Rightarrow> (int \<Rightarrow> content_record \<Rightarrow> 'p \<Rightarrow> 'p) \<Rightarrow> (int \<times> editor_event) list \<Rightarrow>
     editor \<times> 'p \<Rightarrow> editor \<times> 'p" where
  "run J onContentChange evs sp = foldl (step J onContentChange) sp evs"

text \<open>The component mounted at time \<open>t0\<close>: the effect runs once.\<close>

definition mount :: "int \<Rightarrow> string \<Rightarrow> prop_value \<Rightarrow> bool \<Rightarrow> nat \<Rightarrow> editor" where
  "mount t0 uid prop win n0 = effect t0 (editor_start uid prop win n0)"

text \<open>At most one timeout is pending, and it is the one \<open>debounceTimer\<close> names.\<close>

definition at_most_one_pending :: "editor \<Rightarrow> bool" where
  "at_most_one_pending s =
     (case timers s of
        [] \<Rightarrow> True
      | [p] \<Rightarrow> debounceTimer s = Some (fst p)
      | _ \<Rightarrow> False)"




section \<open>The page and the editor together\<close>

text \<open>
  The page renders \<open><Editor initCode={editorContent} ...>\<close>: after a page handler that has
  assigned \<open>editorContent\<close> (the count of assignments moved on from \<open>w\<close>), the prop has the
  new value and the effect runs.
\<close>

record system =
  sys_editor :: editor
  sys_room :: room

definition deliver :: "int \<Rightarrow> nat \<Rightarrow> room \<Rightarrow> editor \<Rightarrow> editor" where
  "deliver now w r e =
     (if editorContent_writes r = w then e
      else effect now
             (e\<lparr>initCode := (case editorContent r of None \<Rightarrow> PNull | Some c \<Rightarrow> PObject c)\<rparr>))"


text \<open>A message from the iframe, with the page's handler as \<open>onContentChange\<close>; an
  exception that leaves \<open>handleMessage\<close> is reported by the browser and the state stays.\<close>

definition sys_message :: "json_builtin \<Rightarrow> int \<Rightarrow> editor_message \<Rightarrow> system \<Rightarrow> system" where
  "sys_message J now m sys =
     (case handleMessage J (handleEditorContentChange now) now m (sys_editor sys, sys_room sys) of
        Inl e \<Rightarrow> sys
      | Inr er \<Rightarrow>
          \<lparr>sys_editor = deliver now (editorContent_writes (sys_room sys)) (snd er) (fst er),
           sys_room = snd er\<rparr>)"

section \<open>Sample values\<close>

text \<open>
  A finite fragment of the two JSON built-ins, enough to evaluate examples: on the texts
  \<open>null\<close>, \<open>0\<close>, \<open>1\<close>, \<open>2\<close>, \<open>[]\<close>, \<open>{}\<close> and on the malformed texts \<open>{\<close> and \<open>undefined\<close> it
  agrees with \<open>JSON.parse\<close>, and on the values of those texts and on \<open>undefined\<close> with
  \<open>JSON.stringify\<close>. No example uses it outside this fragment.
\<close>

definition sample_parse :: "string \<Rightarrow> jsval option" where
  "sample_parse t =
     (if t = ''null'' then Some JNull
      else if t = ''0'' then Some (JNum 0)
      else if t = ''1'' then Some (JNum 1)
      else if t = ''2'' then Some (JNum 2)
      else if t = ''[]'' then Some (JArr [])
      else if t = ''{}'' then Some (JObj [])
      else None)"

fun sample_stringify :: "jsval \<Rightarrow> string option" where
  "sample_stringify JNull = Some ''null''"
| "sample_stringify (JNum n) =
     (if n = 0 then Some ''0'' else if n = 1 then Some ''1'' else if n = 2 then Some ''2'' else None)"
| "sample_stringify (JArr vs) = (if vs = [] then Some ''[]'' else None)"
| "sample_stringify (JObj kvs) = (if kvs = [] then Some ''{}'' else None)"
| "sample_stringify v = None"

definition sample_json :: json_builtin where
  "sample_json = \<lparr>JSON_parse = sample_parse, JSON_stringify = sample_stringify\<rparr>"

text \<open>An editor that is ready, with its iframe window, whose last applied room state
  is \<open>null\<close>; and a page connected to a room whose maps are still empty.\<close>

definition sample_editor :: editor where
  "sample_editor = (editor_start ''ed1'' PNull True 0)\<lparr>editorReady := True\<rparr>"

definition sample_room :: room where
  "sample_room = (initRoom (room_start ''4711'' ''#a1b2c3''))\<lparr>connected := True\<rparr>"

text \<open>A record written by another editor, one written by this editor, a page that is not
  yet connected while the room already holds content, and change messages.\<close>

definition sample_remote :: content_record where
  "sample_remote = \<lparr>data = JNum 1, timestamp = 50, origin = ''ed2''\<rparr>"

definition sample_own :: content_record where
  "sample_own = \<lparr>data = JNum 1, timestamp = 50, origin = ''ed1''\<rparr>"

definition sample_system :: system where
  "sample_system =
     \<lparr>sys_editor = sample_editor,
      sys_room = (initRoom (room_start ''4711'' ''#a1b2c3''))
                   \<lparr>blockContent := Some \<lparr>content = Some (JNum 1), b_timestamp = Some 50,
                                          b_origin = Some ''ed2''\<rparr>\<rparr>\<rparr>"

definition sample_change :: "string \<Rightarrow> string \<Rightarrow> editor_message" where
  "sample_change d el =
     \<lparr>msg_type = ''blocks.updateProject'', msg_data = Some d,
      msg_event = Some \<lparr>element = el, recordUndo = True\<rparr>\<rparr>"

section \<open>Lemmas\<close>

subsection \<open>Unfolding the samples and the editor functions\<close>

lemmas sample_defs =
  sample_remote_def sample_own_def sample_system_def sample_change_def sample_editor_def
  sample_room_def sample_json_def sample_parse_def editor_start_def room_start_def initRoom_def


subsection \<open>Which fields the editor functions leave alone\<close>

lemma debug_fields [simp]:
  "initCode (debug msg s) = initCode s"
  "editorReady (debug msg s) = editorReady s"
  "codeLoaded (debug msg s) = codeLoaded s"
  "showDebug (debug msg s) = showDebug s"
  "localUserId (debug msg s) = localUserId s"
  "lastRoomState (debug msg s) = lastRoomState s"
  "debounceTimer (debug msg s) = debounceTimer s"
  "iframe_window (debug msg s) = iframe_window s"
  "posted (debug msg s) = posted s"
  "timers (debug msg s) = timers s"
  "next_timer (debug msg s) = next_timer s"
  by (simp_all add: debug_def)

lemma loadCode_fields [simp]:
  "initCode (loadCode J v s) = initCode s"
  "editorReady (loadCode J v s) = editorReady s"
  "showDebug (loadCode J v s) = showDebug s"
  "localUserId (loadCode J v s) = localUserId s"
  "lastRoomState (loadCode J v s) = lastRoomState s"
  "debounceTimer (loadCode J v s) = debounceTimer s"
  "iframe_window (loadCode J v s) = iframe_window s"
  "timers (loadCode J v s) = timers s"
  "next_timer (loadCode J v s) = next_timer s"
  by (simp_all add: loadCode_def Let_def split: option.splits)


lemma loadRoomState_timers [simp]:
  "timers (loadRoomState J s) = timers s"
  "debounceTimer (loadRoomState J s) = debounceTimer s"
  "localUserId (loadRoomState J s) = localUserId s"
  by (simp_all add: loadRoomState_def split: prop_value.splits)

lemma handleMessage_timers:
  "handleMessage J cb now m (s, p) = Inr (s', p') \<Longrightarrow>
     timers s' = timers s \<and> debounceTimer s' = debounceTimer s \<and> localUserId s' = localUserId s"
  by (auto simp: handleMessage_def Let_def split: if_splits option.splits)

subsection \<open>The pending timeout\<close>

lemma at_most_one_pending_cases:
  "at_most_one_pending s \<longleftrightarrow>
     timers s = [] \<or> (\<exists>i d. timers s = [(i, d)] \<and> debounceTimer s = Some i)"
  by (auto simp: at_most_one_pending_def split: list.splits)

lemma debounce_timers:
  "at_most_one_pending s \<Longrightarrow> timers (debounce now d s) = [(next_timer s, now + d)]"
  by (auto simp: at_most_one_pending_cases debounce_def clearTimeout_def Let_def split: option.splits)

lemma debounce_fields [simp]:
  "debounceTimer (debounce now d s) = Some (next_timer s)"
  "next_timer (debounce now d s) = Suc (next_timer s)"
  "initCode (debounce now d s) = initCode s"
  "localUserId (debounce now d s) = localUserId s"
  "lastRoomState (debounce now d s) = lastRoomState s"
  "posted (debounce now d s) = posted s"
  "editorReady (debounce now d s) = editorReady s"
  "iframe_window (debounce now d s) = iframe_window s"
  by (simp_all add: debounce_def clearTimeout_def Let_def split: option.splits)

lemma debounce_inv: "at_most_one_pending s \<Longrightarrow> at_most_one_pending (debounce now d s)"
  by (simp add: at_most_one_pending_cases [of "debounce now d s"] debounce_timers)

lemma effect_inv: "at_most_one_pending s \<Longrightarrow> at_most_one_pending (effect now s)"
  by (simp add: effect_def debounce_inv split: prop_value.splits)

lemma fire_pending:
  "timers s = [(i, d)] \<Longrightarrow> timers (fire J i s) = []"
  by (auto simp: fire_def clearTimeout_def timer_callback_def room_state_apply_def Let_def
      split: sum.splits prop_value.splits if_splits)

lemma advance_nothing_due: "\<forall>p \<in> set (timers s). t < snd p \<Longrightarrow> advance J t s = s"
  by (simp add: advance_def due_by_def filter_empty_conv not_le)

lemma advance_one_due:
  "timers s = [(i, d)] \<Longrightarrow> d \<le> t \<Longrightarrow> advance J t s = fire J i s"
  by (simp add: advance_def due_by_def)

lemma advance_inv: "at_most_one_pending s \<Longrightarrow> at_most_one_pending (advance J t s)"
proof -
  assume inv: "at_most_one_pending s"
  show ?thesis
  proof (cases "timers s")
    case Nil
    then have "advance J t s = s" by (simp add: advance_nothing_due)
    with inv show ?thesis by simp
  next
    case (Cons p ps)
    with inv obtain i d where tm: "timers s = [(i, d)]"
      by (auto simp: at_most_one_pending_cases)
    show ?thesis
    proof (cases "d \<le> t")
      case True
      with tm have "advance J t s = fire J i s" by (rule advance_one_due)
      moreover have "timers (fire J i s) = []" using tm by (rule fire_pending)
      ultimately show ?thesis by (simp add: at_most_one_pending_cases)
    next
      case False
      with tm have "advance J t s = s" by (simp add: advance_nothing_due)
      with inv show ?thesis by simp
    qed
  qed
qed

lemma inv_cong:
  "timers s' = timers s \<Longrightarrow> debounceTimer s' = debounceTimer s \<Longrightarrow>
     at_most_one_pending s \<Longrightarrow> at_most_one_pending s'"
  by (simp add: at_most_one_pending_cases)

lemma step_inv:
  "at_most_one_pending (fst sp) \<Longrightarrow> at_most_one_pending (fst (step J cb sp te))"
proof -
  assume "at_most_one_pending (fst sp)"
  then have a: "at_most_one_pending (advance J (fst te) (fst sp))" by (rule advance_inv)
  show ?thesis
  proof (cases "snd te")
    case (PropChange v)
    have "at_most_one_pending ((advance J (fst te) (fst sp))\<lparr>initCode := v\<rparr>)"
      using a by (simp add: at_most_one_pending_cases)
    then show ?thesis using PropChange by (simp add: step_def Let_def effect_inv)
  next
    case (Message m)
    show ?thesis
    proof (cases "handleMessage J (cb (fst te)) (fst te) m (advance J (fst te) (fst sp), snd sp)")
      case (Inl e)
      then show ?thesis using Message a by (simp add: step_def Let_def)
    next
      case (Inr sp')
      then have "timers (fst sp') = timers (advance J (fst te) (fst sp)) \<and>
                 debounceTimer (fst sp') = debounceTimer (advance J (fst te) (fst sp))"
        using handleMessage_timers [of J "cb (fst te)" "fst te" m _ "snd sp" "fst sp'" "snd sp'"]
        by simp
      then have "at_most_one_pending (fst sp')" using a by (simp add: at_most_one_pending_cases)
      then show ?thesis using Message Inr by (simp add: step_def Let_def)
    qed
  next
    case LoadRoomStateClick
    then show ?thesis using a by (simp add: step_def Let_def at_most_one_pending_cases)
  next
    case ToggleDebugClick
    then show ?thesis using a by (simp add: step_def Let_def at_most_one_pending_cases toggleDebug_def)
  qed
qed

lemma run_inv:
  "at_most_one_pending (fst sp) \<Longrightarrow> at_most_one_pending (fst (run J cb evs sp))"
  unfolding run_def
  by (induction evs arbitrary: sp) (simp_all add: step_inv)

lemma start_inv: "at_most_one_pending (editor_start uid pv win nt)"
  by (simp add: at_most_one_pending_def editor_start_def)

lemma mount_inv: "at_most_one_pending (mount tm uid pv win nt)"
  unfolding mount_def by (rule effect_inv) (rule start_inv)

lemma inv_length: "at_most_one_pending s \<Longrightarrow> length (timers s) \<le> 1"
  by (auto simp: at_most_one_pending_cases)

lemma fire_localUserId [simp]: "localUserId (fire J i s) = localUserId s"
  by (simp add: fire_def clearTimeout_def timer_callback_def room_state_apply_def Let_def
      split: sum.splits prop_value.splits)

lemma foldl_fire_localUserId: "localUserId (foldl (\<lambda>s' i. fire J i s') s ids) = localUserId s"
  by (induction ids arbitrary: s) simp_all

lemma advance_localUserId [simp]: "localUserId (advance J t s) = localUserId s"
  by (simp add: advance_def foldl_fire_localUserId)








subsection \<open>The page\<close>

lemma room_debug_fields [simp]:
  "users (room_debug msg s) = users s"
  "myId (room_debug msg s) = myId s"
  "connected (room_debug msg s) = connected s"
  "editorContent (room_debug msg s) = editorContent s"
  "editorContent_writes (room_debug msg s) = editorContent_writes s"
  "lastEditorUpdate (room_debug msg s) = lastEditorUpdate s"
  "syncStatus (room_debug msg s) = syncStatus s"
  "userId (room_debug msg s) = userId s"
  "userColor (room_debug msg s) = userColor s"
  "mousePositions (room_debug msg s) = mousePositions s"
  "blockContent (room_debug msg s) = blockContent s"
  "provider (room_debug msg s) = provider s"
  "idle_timers (room_debug msg s) = idle_timers s"
  "calls (room_debug msg s) = calls s"
  by (simp_all add: room_debug_def)

lemma pointer_frame:
  "connected (pointer s e) = connected s"
  "userId (pointer s e) = userId s"
  "userColor (pointer s e) = userColor s"
  by (cases e; simp add: handleMouseMove_def handleMouseLeave_def mouse_set_def mouse_delete_def
        observe_mouse_def Let_def split: option.splits)+

lemma pointer_entry:
  assumes "connected s" and "mousePositions s = Some m"
  shows "\<exists>m'. mousePositions (pointer s e) = Some m' \<and>
           m' (userId s) =
             (case e of
                MouseMove ev \<Rightarrow>
                  Some \<lparr>px = clientX ev - bounds_left ev, py = clientY ev - bounds_top ev,
                        color = userColor s\<rparr>
              | MouseLeave \<Rightarrow> None)"
  using assms
  by (cases e) (simp_all add: handleMouseMove_def handleMouseLeave_def mouse_set_def
      mouse_delete_def observe_mouse_def Let_def)

lemma pointer_run_frame:
  assumes "connected s" and "mousePositions s = Some m"
  shows "connected (foldl pointer s evs) \<and> userId (foldl pointer s evs) = userId s \<and>
         userColor (foldl pointer s evs) = userColor s \<and>
         (\<exists>m'. mousePositions (foldl pointer s evs) = Some m')"
proof (induction evs rule: rev_induct)
  case Nil
  show ?case using assms by simp
next
  case (snoc e evs)
  then obtain m' where m': "mousePositions (foldl pointer s evs) = Some m'"
    and c: "connected (foldl pointer s evs)" by blast
  from pointer_entry [OF c m', of e] snoc show ?case
    by (auto simp: pointer_frame)
qed

lemma observe_block_frame [simp]:
  "blockContent (observe_block now s) = blockContent s"
  "calls (observe_block now s) = calls s"
  "connected (observe_block now s) = connected s"
  by (simp_all add: observe_block_def Let_def split: option.splits)




section \<open>The claims\<close>

subsection \<open>C1: how the editor decides to skip an observed record\<close>


text \<open>
  Such a record is what the editor observes after a change of its own: the page writes the
  change to the content map, the map's observer hands the record back as \<open>initCode\<close>, its
  origin is the editor's \<open>localUserId\<close>, and no apply is scheduled for it.
\<close>

lemma own_change_comes_back_and_is_skipped:
  "editorContent (sys_room (sys_message sample_json 1000 (sample_change ''1'' ''block'')
                              \<lparr>sys_editor = sample_editor, sys_room = sample_room\<rparr>)) =
     Some \<lparr>data = JNum 1, timestamp = 1000, origin = ''ed1''\<rparr> \<and>
   initCode (sys_editor (sys_message sample_json 1000 (sample_change ''1'' ''block'')
                           \<lparr>sys_editor = sample_editor, sys_room = sample_room\<rparr>)) =
     PObject \<lparr>data = JNum 1, timestamp = 1000, origin = ''ed1''\<rparr> \<and>
   timers (sys_editor (sys_message sample_json 1000 (sample_change ''1'' ''block'')
                         \<lparr>sys_editor = sample_editor, sys_room = sample_room\<rparr>)) = []"
  by (simp add: sample_defs sys_message_def handleMessage_def truthy_string_def parse_arg_def
      handleEditorContentChange_def block_update_def observe_block_def room_debug_def
      map_get_def deliver_def effect_def Let_def)



subsection \<open>C2: a burst of remote changes\<close>



subsection \<open>C3: a local change is published at once\<close>



subsection \<open>C4: changes that are not propagated\<close>

text \<open>
  Claim C4. A change message without payload, or marked as a selection event, or marked as
  not recorded for undo, leaves the editor and the parent state as they are: the
  \<open>onContentChange\<close> callback is not called, whatever it is. And the page's handler, given
  a record whose data is falsy, writes nothing to the content map and calls nothing on the
  shared-state client.
\<close>

theorem C4_non_propagating_never_written:
  "(msg_type m = ''blocks.updateProject'' \<and>
      (\<not> truthy_string (msg_data m) \<or>
       (\<exists>ev. msg_event m = Some ev \<and> (element ev = ''selected'' \<or> \<not> recordUndo ev)))
      \<longrightarrow> handleMessage J onContentChange now m (s, p) = Inr (s, p)) \<and>
   (\<not> truthy (data c) \<longrightarrow>
      blockContent (handleEditorContentChange now2 c r) = blockContent r \<and>
      calls (handleEditorContentChange now2 c r) = calls r)"
  by (auto simp: handleMessage_def handleEditorContentChange_def Let_def)

theorem C4_non_propagating_never_written_witness:
  "handleMessage sample_json (handleEditorContentChange 1001) 1000
     (sample_change ''1'' ''selected'') (sample_editor, sample_room) =
     Inr (sample_editor, sample_room) \<and>
   blockContent (handleEditorContentChange 1001 \<lparr>data = JNull, timestamp = 1000, origin = ''ed1''\<rparr>
                   sample_room) = blockContent sample_room \<and>
   calls (handleEditorContentChange 1001 \<lparr>data = JNull, timestamp = 1000, origin = ''ed1''\<rparr>
            sample_room) = calls sample_room"
  using C4_non_propagating_never_written
    [where m = "sample_change ''1'' ''selected''" and J = sample_json
       and onContentChange = "handleEditorContentChange 1001" and now = 1000
       and s = sample_editor and p = sample_room
       and c = "\<lparr>data = JNull, timestamp = 1000, origin = ''ed1''\<rparr>" and ?now2.0 = 1001
       and r = sample_room]
  by (simp add: sample_change_def)

subsection \<open>C5: a malformed payload\<close>

text \<open>
  Claim C5 says that a payload that does not deserialise never raises an uncaught
  exception. \<open>loadCode\<close> catches the failure of its JSON round trip, but \<open>handleMessage\<close>
  calls \<open>JSON.parse\<close> on the payload text outside any \<open>try\<close>: for a change message that
  passes the guards and whose text does not parse, the SyntaxError leaves the handler.
  Nothing is published or pushed on the way.
\<close>

theorem C5_malformed_payload_escapes_handler:
  assumes "editorReady s" and "msg_type m = ''blocks.updateProject''"
    and "msg_data m = Some d" and "d \<noteq> []" and "msg_event m = Some ev"
    and "element ev \<noteq> ''selected''" and "recordUndo ev" and "JSON_parse J d = None"
  shows "handleMessage J onContentChange now m (s, p) = Inl SyntaxError"
  using assms by (simp add: handleMessage_def Let_def truthy_string_def parse_arg_def)

theorem C5_malformed_payload_escapes_handler_witness:
  "handleMessage sample_json (handleEditorContentChange 1001) 1000
     (sample_change ''{'' ''block'') (sample_editor, sample_room) = Inl SyntaxError"
  using C5_malformed_payload_escapes_handler
    [where s = sample_editor and m = "sample_change ''{'' ''block''" and d = "''{''"
       and ev = "\<lparr>element = ''block'', recordUndo = True\<rparr>" and J = sample_json
       and onContentChange = "handleEditorContentChange 1001" and now = 1000 and p = sample_room]
  by (simp add: sample_defs)

subsection \<open>C6: presence follows the pointer\<close>

text \<open>
  Claim C6. While the page is connected and has its presence map, after any non-empty
  sequence of pointer events the entry under the page's \<open>userId\<close> is the position of the
  last move (relative to the tracking area, with the session colour) if the last event was
  a move, and is absent if the last event was the pointer leaving.
\<close>

theorem C6_presence_follows_pointer:
  assumes "connected s" and "mousePositions s = Some m" and "evs \<noteq> []"
  shows "\<exists>m'. mousePositions (foldl pointer s evs) = Some m' \<and>
           m' (userId s) =
             (case last evs of
                MouseMove ev \<Rightarrow>
                  Some \<lparr>px = clientX ev - bounds_left ev, py = clientY ev - bounds_top ev,
                        color = userColor s\<rparr>
              | MouseLeave \<Rightarrow> None)"
proof -
  from \<open>evs \<noteq> []\<close> obtain es e where evs: "evs = es @ [e]"
    by (cases evs rule: rev_cases) auto
  let ?r = "foldl pointer s es"
  from pointer_run_frame [OF assms(1,2), of es]
  obtain m1 where r: "connected ?r" "userId ?r = userId s" "userColor ?r = userColor s"
    "mousePositions ?r = Some m1" by blast
  from pointer_entry [OF r(1) r(4), of e] show ?thesis
    unfolding evs r(2) r(3) by simp
qed

theorem C6_presence_follows_pointer_witness:
  "(\<exists>m'. mousePositions
           (foldl pointer sample_room
              [MouseMove \<lparr>clientX = 30, clientY = 40, bounds_left = 10, bounds_top = 20\<rparr>,
               MouseMove \<lparr>clientX = 35, clientY = 45, bounds_left = 10, bounds_top = 20\<rparr>]) = Some m' \<and>
         m' ''4711'' = Some \<lparr>px = 25, py = 25, color = ''#a1b2c3''\<rparr>) \<and>
   (\<exists>m'. mousePositions
           (foldl pointer sample_room
              [MouseMove \<lparr>clientX = 30, clientY = 40, bounds_left = 10, bounds_top = 20\<rparr>,
               MouseLeave]) = Some m' \<and>
         m' ''4711'' = None)"
  using C6_presence_follows_pointer
    [where s = sample_room and m = Map.empty
       and evs = "[MouseMove \<lparr>clientX = 30, clientY = 40, bounds_left = 10, bounds_top = 20\<rparr>,
                   MouseMove \<lparr>clientX = 35, clientY = 45, bounds_left = 10, bounds_top = 20\<rparr>]"]
    C6_presence_follows_pointer
    [where s = sample_room and m = Map.empty
       and evs = "[MouseMove \<lparr>clientX = 30, clientY = 40, bounds_left = 10, bounds_top = 20\<rparr>,
                   MouseLeave]"]
  by (simp add: sample_defs room_debug_def)

subsection \<open>C7: at most one pending timeout\<close>

text \<open>
  Claim C7. In every state the mounted component reaches, whatever the events and their
  times, at most one timeout is pending; and \<open>debounce\<close> called in such a state leaves
  exactly the timeout it creates, the earlier one being cancelled first.
\<close>

theorem C7_single_pending_timer:
  "length (timers (fst (run J cb evs (mount tm uid pv win nt, p)))) \<le> 1 \<and>
   timers (debounce now d (fst (run J cb evs (mount tm uid pv win nt, p)))) =
     [(next_timer (fst (run J cb evs (mount tm uid pv win nt, p))), now + d)]"
proof -
  have "at_most_one_pending (fst (run J cb evs (mount tm uid pv win nt, p)))"
    by (rule run_inv) (simp add: mount_inv)
  then show ?thesis by (intro conjI inv_length debounce_timers)
qed

theorem C7_single_pending_timer_witness:
  "length (timers (fst (run sample_json handleEditorContentChange
                          [(100, PropChange (PObject sample_remote)),
                           (103, PropChange (PObject sample_remote))]
                          (mount 0 ''ed1'' PNull True 0, sample_room)))) \<le> 1"
  by (rule conjunct1 [OF C7_single_pending_timer])

subsection \<open>C8: the first synchronisation\<close>




subsection \<open>C9: teardown\<close>

text \<open>
  Claim C9. \<open>cleanup\<close> calls the shared-state client in this order: first the deletion of
  the page's own presence entry, when the presence map exists and the page is connected,
  then the provider's \<open>disconnect\<close>, when there is a provider. The deletion never comes
  after the disconnect.
\<close>

theorem C9_presence_removed_before_disconnect:
  "calls (cleanup s) =
     calls s
     @ (if mousePositions s \<noteq> None \<and> connected s then [PresenceDelete (userId s)] else [])
     @ (if provider s \<noteq> None then [ProviderDisconnect] else [])"
  by (auto simp: cleanup_def mouse_delete_def observe_mouse_def Let_def
      split: option.splits)

theorem C9_presence_removed_before_disconnect_witness:
  "calls (cleanup sample_room) = [PresenceDelete ''4711'', ProviderDisconnect]"
  using C9_presence_removed_before_disconnect [where s = sample_room]
  by (simp add: sample_defs room_debug_def)

subsection \<open>C10: a local change while not connected\<close>

text \<open>
  Claim C10. When the page is not connected, or has no content map yet, the handler of
  editor changes returns the page state as it got it: the three keys of the content map,
  \<open>lastEditorUpdate\<close>, \<open>syncStatus\<close> and everything else are unchanged.
\<close>

theorem C10_disconnected_change_is_noop:
  "\<not> connected s \<or> blockContent s = None \<Longrightarrow> handleEditorContentChange now c s = s"
  by (auto simp: handleEditorContentChange_def)

theorem C10_disconnected_change_is_noop_witness:
  "\<not> connected (sys_room sample_system) \<and>
   handleEditorContentChange 1000 sample_own (sys_room sample_system) = sys_room sample_system"
  using C10_disconnected_change_is_noop
    [where s = "sys_room sample_system" and now = 1000 and c = sample_own]
  by (simp add: sample_defs room_debug_def)

end
